theory Spec2Isabelle
  imports Complex_Main "HOL-Library.AList"
begin

section \<open>The organic keyframe animator and the joint-state publisher\<close>

text \<open>
  A shallow embedding of \<^verbatim>\<open>goliath_animation_generator.py\<close> (class
  \<^verbatim>\<open>OrganicKeyframeAnimator\<close>) and of \<^verbatim>\<open>get_joint_values_from_row\<close> of
  \<^verbatim>\<open>blender_joint_publisher_node.py\<close>.

  Conventions of the embedding:
  \<^item> Python numbers that hold joint values, factors and amplitudes are \<open>real\<close>: the
    rounding of IEEE doubles is not modelled. Frame numbers are Python ints (\<open>int\<close>).
  \<^item> A dict whose keys are iterated in order (\<^verbatim>\<open>self.keyframes\<close>) is an association
    list updated with \<open>AList.update\<close>, which replaces in place or appends, as a dict does.
    A dict that is only looked up is a map \<open>'k \<rightharpoonup> 'v\<close>.
  \<^item> A numpy array is a \<open>real list\<close>; writing at an index is \<open>np_setitem\<close>, which wraps a
    negative index and raises \<open>IndexError\<close> out of range.
  \<^item> Every raise is a value \<open>Inl e\<close> of the result type \<open>error + 'a\<close>.
  \<^item> Console output is modelled only for the setters, as the list of messages printed.
\<close>

subsection \<open>Errors and primitive operations\<close>

datatype error = KeyError | IndexError | ValueError | TypeError | ZeroDivisionError | OverflowError

type_synonym joint = string

text \<open>\<^verbatim>\<open>d.get(key, default)\<close> on a dict that is only looked up.\<close>

definition dict_get :: "('k \<rightharpoonup> 'v) \<Rightarrow> 'k \<Rightarrow> 'v \<Rightarrow> 'v" where
  "dict_get d k dflt = (case d k of None \<Rightarrow> dflt | Some v \<Rightarrow> v)"

text \<open>\<^verbatim>\<open>a / b\<close> on Python ints: true division, raising on a zero divisor.\<close>

definition py_truediv :: "int \<Rightarrow> int \<Rightarrow> error + real" where
  "py_truediv a b = (if b = 0 then Inl ZeroDivisionError else Inr (real_of_int a / real_of_int b))"

text \<open>\<^verbatim>\<open>int(x)\<close> on a float: truncation towards zero.\<close>

definition py_int :: "real \<Rightarrow> int" where
  "py_int x = (if 0 \<le> x then \<lfloor>x\<rfloor> else \<lceil>x\<rceil>)"

text \<open>\<^verbatim>\<open>a[i] = v\<close> on a numpy array: a negative index counts from the end.\<close>

definition np_index :: "nat \<Rightarrow> int \<Rightarrow> error + nat" where
  "np_index n i =
     (if 0 \<le> i \<and> i < int n then Inr (nat i)
      else if - int n \<le> i \<and> i < 0 then Inr (nat (int n + i))
      else Inl IndexError)"

definition np_setitem :: "real list \<Rightarrow> int \<Rightarrow> real \<Rightarrow> error + real list" where
  "np_setitem a i v = (case np_index (length a) i of Inl e \<Rightarrow> Inl e | Inr k \<Rightarrow> Inr (a[k := v]))"

text \<open>\<^verbatim>\<open>np.mean\<close> of a non-empty slice.\<close>

definition np_mean :: "real list \<Rightarrow> real" where
  "np_mean xs = sum_list xs / real (length xs)"

text \<open>\<^verbatim>\<open>data[start:end]\<close> for \<open>0 \<le> start\<close> and \<open>end \<le> len(data)\<close>.\<close>

definition slice :: "'a list \<Rightarrow> nat \<Rightarrow> nat \<Rightarrow> 'a list" where
  "slice xs start end = take (end - start) (drop start xs)"

subsection \<open>The animator's state\<close>

record osc_param =
  freq :: real
  base_amp :: real
  phase :: real

type_synonym keyframe_store = "(int \<times> (joint \<rightharpoonup> real)) list"

type_synonym trajectory = "joint \<rightharpoonup> real list"

text \<open>
  The fields of \<^verbatim>\<open>OrganicKeyframeAnimator\<close>. \<^verbatim>\<open>self.frames\<close> (and the
  \<^verbatim>\<open>'frame'\<close> column of \<^verbatim>\<open>self.data\<close>, the same array) is \<open>[0..<total_frames]\<close> and
  is never written, so \<open>data\<close> holds the joint columns only. \<^verbatim>\<open>np.zeros\<close> rejects a
  negative length, so \<open>total_frames\<close> is a \<open>nat\<close>.
\<close>

record animator =
  total_frames :: nat
  global_osc_factor :: real
  data :: trajectory
  keyframes :: keyframe_store
  osc_factors :: "joint \<rightharpoonup> real"
  osc_params :: "joint \<rightharpoonup> osc_param"

definition rotational_joints :: "joint list" where
  "rotational_joints =
     [''joint_1'', ''joint_2'', ''joint_3'', ''joint_4'', ''joint_5'', ''joint_6'', ''joint_7'']"

definition slider_joints :: "joint list" where
  "slider_joints = [''Slider 22'', ''Slider 23'']"

definition all_joints :: "joint list" where
  "all_joints = rotational_joints @ slider_joints"

text \<open>\<^verbatim>\<open>__init__\<close>.\<close>

definition init :: "nat \<Rightarrow> real \<Rightarrow> animator" where
  "init n g =
     \<lparr> total_frames = n,
       global_osc_factor = g,
       data = map_of
         [(''joint_1'', replicate n 0), (''joint_2'', replicate n 0), (''joint_3'', replicate n 0),
          (''joint_4'', replicate n 0), (''joint_5'', replicate n 0), (''joint_6'', replicate n 0),
          (''joint_7'', replicate n 0),
          (''Slider 22'', replicate n (- 0.022)), (''Slider 23'', replicate n 0.022)],
       keyframes = [],
       osc_factors = map_of
         [(''joint_1'', 1.0), (''joint_2'', 0.8), (''joint_3'', 0.6), (''joint_4'', 1.1),
          (''joint_5'', 1.2), (''joint_6'', 2), (''joint_7'', 0.3),
          (''Slider 22'', 0.1), (''Slider 23'', 0.1)],
       osc_params = map_of
         [(''joint_1'', \<lparr>freq = 0.08, base_amp = 3.0, phase = 0\<rparr>),
          (''joint_2'', \<lparr>freq = 0.12, base_amp = 2.0, phase = pi / 4\<rparr>),
          (''joint_3'', \<lparr>freq = 0.10, base_amp = 1.5, phase = pi / 2\<rparr>),
          (''joint_4'', \<lparr>freq = 0.15, base_amp = 4.0, phase = 3 * pi / 4\<rparr>),
          (''joint_5'', \<lparr>freq = 0.20, base_amp = 5.0, phase = pi\<rparr>),
          (''joint_6'', \<lparr>freq = 0.25, base_amp = 4.0, phase = 5 * pi / 4\<rparr>),
          (''joint_7'', \<lparr>freq = 0.05, base_amp = 0.5, phase = 0\<rparr>),
          (''Slider 22'', \<lparr>freq = 0.3, base_amp = 0.001, phase = 0\<rparr>),
          (''Slider 23'', \<lparr>freq = 0.3, base_amp = 0.001, phase = pi\<rparr>)] \<rparr>"

subsection \<open>Setters\<close>

text \<open>What a setter prints: one constructor per \<^verbatim>\<open>print\<close> call of the setters.\<close>

datatype message =
    GlobalFactorSet real
  | JointFactorSet joint real
  | JointNotFound joint
  | AllFactorsSet real
  | AmplitudeSet joint real
  | FrequencySet joint real

definition set_global_oscillation_factor :: "animator \<Rightarrow> real \<Rightarrow> animator \<times> message list" where
  "set_global_oscillation_factor st factor =
     (let st' = st\<lparr>global_osc_factor := max 0.0 factor\<rparr>
      in (st', [GlobalFactorSet (global_osc_factor st')]))"

definition set_joint_oscillation_factor ::
  "animator \<Rightarrow> joint \<Rightarrow> real \<Rightarrow> animator \<times> message list" where
  "set_joint_oscillation_factor st joint_name factor =
     (case osc_factors st joint_name of
        Some _ \<Rightarrow> (st\<lparr>osc_factors := (osc_factors st)(joint_name \<mapsto> max 0.0 factor)\<rparr>,
                   [JointFactorSet joint_name factor])
      | None \<Rightarrow> (st, [JointNotFound joint_name]))"

definition set_all_joints_oscillation :: "animator \<Rightarrow> real \<Rightarrow> animator \<times> message list" where
  "set_all_joints_oscillation st factor =
     (st\<lparr>osc_factors := (\<lambda>joint. map_option (\<lambda>_. max 0.0 factor) (osc_factors st joint))\<rparr>,
      [AllFactorsSet factor])"

definition set_oscillation_amplitude ::
  "animator \<Rightarrow> joint \<Rightarrow> real \<Rightarrow> animator \<times> message list" where
  "set_oscillation_amplitude st joint_name amplitude =
     (case osc_params st joint_name of
        Some p \<Rightarrow> (st\<lparr>osc_params := (osc_params st)(joint_name \<mapsto> p\<lparr>base_amp := amplitude\<rparr>)\<rparr>,
                   [AmplitudeSet joint_name amplitude])
      | None \<Rightarrow> (st, []))"

definition set_oscillation_frequency ::
  "animator \<Rightarrow> joint \<Rightarrow> real \<Rightarrow> animator \<times> message list" where
  "set_oscillation_frequency st joint_name frequency =
     (case osc_params st joint_name of
        Some p \<Rightarrow> (st\<lparr>osc_params := (osc_params st)(joint_name \<mapsto> p\<lparr>freq := frequency\<rparr>)\<rparr>,
                   [FrequencySet joint_name frequency])
      | None \<Rightarrow> (st, []))"

subsection \<open>Keyframes\<close>

text \<open>\<^verbatim>\<open>add_keyframe\<close>: \<^verbatim>\<open>self.keyframes[frame] = joints.copy()\<close>.\<close>

definition add_keyframe :: "animator \<Rightarrow> int \<Rightarrow> (joint \<rightharpoonup> real) \<Rightarrow> animator" where
  "add_keyframe st frame joints = st\<lparr>keyframes := AList.update frame joints (keyframes st)\<rparr>"

text \<open>The keyframe that \<^verbatim>\<open>generate_movement\<close> synthesizes at frame 0.\<close>

definition home_keyframe :: "joint \<rightharpoonup> real" where
  "home_keyframe =
     ((map_of (map (\<lambda>joint. (joint, 0)) rotational_joints))
        (''Slider 22'' \<mapsto> - 0.022)) (''Slider 23'' \<mapsto> 0.022)"

text \<open>
  ``Add start and end keyframes if not present'': the two \<^verbatim>\<open>if\<close> statements of
  \<^verbatim>\<open>generate_movement\<close> that follow the test for an empty store.
\<close>

definition add_start_keyframe :: "keyframe_store \<Rightarrow> keyframe_store" where
  "add_start_keyframe kfs =
     (if 0 \<notin> fst ` set kfs then AList.update 0 home_keyframe kfs else kfs)"

definition add_end_keyframe :: "nat \<Rightarrow> keyframe_store \<Rightarrow> error + keyframe_store" where
  "add_end_keyframe n kfs =
     (if int n - 1 \<notin> fst ` set kfs
      then (case map_of kfs 0 of
              None \<Rightarrow> Inl KeyError
            | Some k0 \<Rightarrow> Inr (AList.update (int n - 1) k0 kfs))
      else Inr kfs)"

definition normalize :: "nat \<Rightarrow> keyframe_store \<Rightarrow> error + keyframe_store" where
  "normalize n kfs = add_end_keyframe n (add_start_keyframe kfs)"

text \<open>\<^verbatim>\<open>sorted(self.keyframes.keys())\<close>.\<close>

definition sorted_frames_of :: "keyframe_store \<Rightarrow> int list" where
  "sorted_frames_of kfs = sort (map fst kfs)"

subsection \<open>Oscillation\<close>

text \<open>\<^verbatim>\<open>get_oscillation\<close>.\<close>

definition get_oscillation :: "animator \<Rightarrow> joint \<Rightarrow> int \<Rightarrow> real \<Rightarrow> real" where
  "get_oscillation st joint_name frame speed_factor =
     (case osc_params st joint_name of
        None \<Rightarrow> 0
      | Some params \<Rightarrow>
          (let joint_factor = dict_get (osc_factors st) joint_name 1.0;
               base_osc = base_amp params * sin (real_of_int frame * freq params + phase params);
               final_osc = base_osc * joint_factor * global_osc_factor st * speed_factor
           in final_osc))"

text \<open>
  The scan \<^verbatim>\<open>for keyframe in sorted_frames: if abs(frame - keyframe) < precision_frames\<close>
  with \<^verbatim>\<open>precision_frames = 10\<close>.
\<close>

definition precision_frames :: int where
  "precision_frames = 10"

fun is_precision_zone :: "int \<Rightarrow> int list \<Rightarrow> bool" where
  "is_precision_zone frame [] = False"
| "is_precision_zone frame (keyframe # rest) =
     (if \<bar>frame - keyframe\<bar> < precision_frames then True else is_precision_zone frame rest)"

text \<open>
  The value of the variable \<^verbatim>\<open>oscillation\<close> when the cell is written: it stays \<open>0\<close>
  unless the frame is outside every precision zone and the joint's factor is positive.
  The factor is looked up only outside a precision zone (\<^verbatim>\<open>and\<close> short-circuits).
\<close>

definition oscillation_term ::
  "animator \<Rightarrow> int list \<Rightarrow> int \<Rightarrow> int \<Rightarrow> int \<Rightarrow> joint \<Rightarrow> real \<Rightarrow> real \<Rightarrow> error + real" where
  "oscillation_term st sorted_frames start_frame end_frame frame joint start_val end_val =
     (if is_precision_zone frame sorted_frames then Inr 0
      else (case osc_factors st joint of
              None \<Rightarrow> Inl KeyError
            | Some factor \<Rightarrow>
                if factor > 0 then
                  (let movement_distance = \<bar>end_val - start_val\<bar>;
                       segment_length = max 1 (end_frame - start_frame);
                       speed = movement_distance / real_of_int segment_length;
                       speed_factor = max 0.1 (1.0 - speed * 0.1);
                       oscillation = get_oscillation st joint frame speed_factor
                   in if joint \<in> set slider_joints \<and> movement_distance < 0.001
                      then Inr 0 else Inr oscillation)
                else Inr 0))"

subsection \<open>Interpolation\<close>

text \<open>
  \<^verbatim>\<open>t = (frame - start_frame) / (end_frame - start_frame) if start_frame != end_frame else 0\<close>
\<close>

definition segment_t :: "int \<Rightarrow> int \<Rightarrow> int \<Rightarrow> error + real" where
  "segment_t frame start_frame end_frame =
     (if start_frame \<noteq> end_frame then py_truediv (frame - start_frame) (end_frame - start_frame)
      else Inr 0)"

definition ease :: "real \<Rightarrow> real" where
  "ease t = (1 - cos (t * pi)) / 2"

text \<open>\<^verbatim>\<open>start_val\<close> and \<^verbatim>\<open>end_val\<close> of a joint in a segment.\<close>

definition start_end_values ::
  "keyframe_store \<Rightarrow> int \<Rightarrow> int \<Rightarrow> joint \<Rightarrow> error + real \<times> real" where
  "start_end_values kfs start_frame end_frame joint =
     (case map_of kfs start_frame of
        None \<Rightarrow> Inl KeyError
      | Some start_kf \<Rightarrow>
          (let start_val = dict_get start_kf joint 0
           in case map_of kfs end_frame of
                None \<Rightarrow> Inl KeyError
              | Some end_kf \<Rightarrow> Inr (start_val, dict_get end_kf joint start_val)))"

definition base_value :: "real \<Rightarrow> real \<Rightarrow> real \<Rightarrow> real" where
  "base_value start_val end_val ease_t = start_val + (end_val - start_val) * ease_t"

text \<open>The value written into one cell: the body of the loop over the joints, up to the write.\<close>

definition cell_value ::
  "animator \<Rightarrow> int list \<Rightarrow> int \<Rightarrow> int \<Rightarrow> int \<Rightarrow> real \<Rightarrow> joint \<Rightarrow> error + real" where
  "cell_value st sorted_frames start_frame end_frame frame ease_t joint =
     (case start_end_values (keyframes st) start_frame end_frame joint of
        Inl e \<Rightarrow> Inl e
      | Inr (start_val, end_val) \<Rightarrow>
          (case oscillation_term st sorted_frames start_frame end_frame frame joint start_val end_val of
             Inl e \<Rightarrow> Inl e
           | Inr oscillation \<Rightarrow> Inr (base_value start_val end_val ease_t + oscillation)))"

text \<open>\<^verbatim>\<open>self.data[joint][frame] = value\<close>.\<close>

definition data_setitem :: "trajectory \<Rightarrow> joint \<Rightarrow> int \<Rightarrow> real \<Rightarrow> error + trajectory" where
  "data_setitem d joint frame v =
     (case d joint of
        None \<Rightarrow> Inl KeyError
      | Some a \<Rightarrow> (case np_setitem a frame v of Inl e \<Rightarrow> Inl e | Inr a' \<Rightarrow> Inr (d(joint \<mapsto> a'))))"

subsection \<open>The three loops of \<^verbatim>\<open>generate_movement\<close>\<close>

text \<open>\<^verbatim>\<open>for joint in [...]\<close>: the trajectory is threaded through, the rest is read only.\<close>

fun joint_loop ::
  "animator \<Rightarrow> int list \<Rightarrow> int \<Rightarrow> int \<Rightarrow> int \<Rightarrow> real \<Rightarrow> joint list \<Rightarrow> trajectory \<Rightarrow> error + trajectory"
where
  "joint_loop st sorted_frames start_frame end_frame frame ease_t [] d = Inr d"
| "joint_loop st sorted_frames start_frame end_frame frame ease_t (joint # rest) d =
     (case cell_value st sorted_frames start_frame end_frame frame ease_t joint of
        Inl e \<Rightarrow> Inl e
      | Inr v \<Rightarrow>
          (case data_setitem d joint frame v of
             Inl e \<Rightarrow> Inl e
           | Inr d' \<Rightarrow> joint_loop st sorted_frames start_frame end_frame frame ease_t rest d'))"

text \<open>\<^verbatim>\<open>for frame in segment_frames\<close>, over the frames still to be visited.\<close>

fun frame_loop ::
  "animator \<Rightarrow> int list \<Rightarrow> int \<Rightarrow> int \<Rightarrow> int list \<Rightarrow> trajectory \<Rightarrow> error + trajectory"
where
  "frame_loop st sorted_frames start_frame end_frame [] d = Inr d"
| "frame_loop st sorted_frames start_frame end_frame (frame # rest) d =
     (case segment_t frame start_frame end_frame of
        Inl e \<Rightarrow> Inl e
      | Inr t \<Rightarrow>
          (case joint_loop st sorted_frames start_frame end_frame frame (ease t) all_joints d of
             Inl e \<Rightarrow> Inl e
           | Inr d' \<Rightarrow> frame_loop st sorted_frames start_frame end_frame rest d'))"

text \<open>
  \<^verbatim>\<open>for i in range(len(sorted_frames) - 1)\<close>, over the suffix \<open>sorted_frames[i:]\<close>;
  \<^verbatim>\<open>range(start_frame, end_frame + 1)\<close> is \<open>[start_frame..end_frame]\<close>.
\<close>

fun segment_loop :: "animator \<Rightarrow> int list \<Rightarrow> int list \<Rightarrow> trajectory \<Rightarrow> error + trajectory" where
  "segment_loop st sorted_frames (start_frame # end_frame # rest) d =
     (case frame_loop st sorted_frames start_frame end_frame [start_frame..end_frame] d of
        Inl e \<Rightarrow> Inl e
      | Inr d' \<Rightarrow> segment_loop st sorted_frames (end_frame # rest) d')"
| "segment_loop st sorted_frames _ d = Inr d"

subsection \<open>Smoothing\<close>

text \<open>The inner function \<^verbatim>\<open>moving_average\<close> of \<^verbatim>\<open>_apply_smoothing\<close>.\<close>

definition window_bounds :: "nat \<Rightarrow> int \<Rightarrow> nat \<Rightarrow> nat \<times> nat" where
  "window_bounds len window_size i =
     (nat (max 0 (int i - window_size div 2)),
      nat (min (int len) (int i + window_size div 2 + 1)))"

definition moving_average :: "real list \<Rightarrow> int \<Rightarrow> real list" where
  "moving_average xs window_size =
     map (\<lambda>i. case window_bounds (length xs) window_size i of
                 (start, end) \<Rightarrow> np_mean (slice xs start end))
         [0..<length xs]"

text \<open>\<^verbatim>\<open>window_size = max(3, int(factor * 5))\<close>.\<close>

definition window_size_of :: "real \<Rightarrow> int" where
  "window_size_of factor = max 3 (py_int (factor * 5))"

fun smoothing_loop :: "animator \<Rightarrow> joint list \<Rightarrow> trajectory \<Rightarrow> error + trajectory" where
  "smoothing_loop st [] d = Inr d"
| "smoothing_loop st (joint # rest) d =
     (case osc_factors st joint of
        None \<Rightarrow> Inl KeyError
      | Some factor \<Rightarrow>
          (case d joint of
             None \<Rightarrow> Inl KeyError
           | Some a \<Rightarrow>
               smoothing_loop st rest (d(joint \<mapsto> moving_average a (window_size_of factor)))))"

definition apply_smoothing :: "animator \<Rightarrow> error + animator" where
  "apply_smoothing st =
     (case smoothing_loop st rotational_joints (data st) of
        Inl e \<Rightarrow> Inl e
      | Inr d \<Rightarrow> Inr (st\<lparr>data := d\<rparr>))"

subsection \<open>\<^verbatim>\<open>generate_movement\<close>\<close>

text \<open>
  The part of \<^verbatim>\<open>generate_movement\<close> after the test for an empty store and before the
  smoothing pass: the boundary keyframes are added, then every segment is written.
\<close>

definition generate_raw :: "animator \<Rightarrow> error + animator" where
  "generate_raw st =
     (case normalize (total_frames st) (keyframes st) of
        Inl e \<Rightarrow> Inl e
      | Inr kfs \<Rightarrow>
          (let st1 = st\<lparr>keyframes := kfs\<rparr>;
               sorted_frames = sorted_frames_of kfs
           in case segment_loop st1 sorted_frames sorted_frames (data st1) of
                Inl e \<Rightarrow> Inl e
              | Inr d \<Rightarrow> Inr (st1\<lparr>data := d\<rparr>)))"

definition generate_keyframed :: "animator \<Rightarrow> error + animator" where
  "generate_keyframed st =
     (case generate_raw st of Inl e \<Rightarrow> Inl e | Inr st' \<Rightarrow> apply_smoothing st')"

text \<open>The five keyframes of \<^verbatim>\<open>_create_default_movement\<close>.\<close>

definition pose :: "real list \<Rightarrow> joint \<rightharpoonup> real" where
  "pose vs = map_of (zip all_joints vs)"

definition add_default_keyframes :: "animator \<Rightarrow> animator" where
  "add_default_keyframes st =
     add_keyframe
       (add_keyframe
          (add_keyframe
             (add_keyframe
                (add_keyframe st 0 (pose [0, 0, 20, 0, 0, 0, 0, - 0.022, 0.022]))
                100 (pose [30, - 60, 30, 15, 45, - 30, 5, - 0.003, 0.003]))
             200 (pose [0, - 84, 31.2, 0, 55, - 90, 0, - 0.003, 0.003]))
          210 (pose [0, - 84, 31.2, 0, 45, - 90, 0, - 0.022, 0.022]))
       399 (pose [0, 0, 20, 0, 0, 0, 0, - 0.022, 0.022])"

text \<open>
  \<^verbatim>\<open>generate_movement\<close>: with no keyframe it calls \<^verbatim>\<open>_create_default_movement\<close>, which
  adds the default keyframes and calls \<^verbatim>\<open>generate_movement\<close> again, now on a non-empty
  store. The result is the animator after the call; its \<open>data\<close> is the returned table.
\<close>

definition generate_movement :: "animator \<Rightarrow> error + animator" where
  "generate_movement st =
     (if sorted_frames_of (keyframes st) = []
      then generate_keyframed (add_default_keyframes st)
      else generate_keyframed st)"

subsection \<open>The publisher: \<^verbatim>\<open>get_joint_values_from_row\<close>\<close>

record joint_cfg =
  csv_column :: string
  is_degree :: bool

text \<open>
  The two fields of \<^verbatim>\<open>BlenderJointPublisher\<close> that the conversion reads.
\<close>

record publisher =
  joint_config :: "(string \<times> joint_cfg) list"
  joint_names :: "string list"

text \<open>
  A row of the table: a column is absent (\<open>None\<close>) or holds a cell, and a cell is what
  \<^verbatim>\<open>float(row[csv_col])\<close> makes of it: a number, or the exception it raises.
\<close>

type_synonym row = "string \<rightharpoonup> error + real"

definition default_joint_config :: "(string \<times> joint_cfg) list" where
  "default_joint_config =
     map (\<lambda>name. (name, \<lparr>csv_column = name, is_degree = True\<rparr>)) all_joints"

text \<open>The constructor's handling of \<^verbatim>\<open>joint_prefix\<close>.\<close>

definition make_publisher :: "string \<Rightarrow> publisher" where
  "make_publisher joint_prefix =
     (let cfg = (if joint_prefix \<noteq> []
                 then map (\<lambda>(name, config). (joint_prefix @ name, config)) default_joint_config
                 else default_joint_config)
      in \<lparr>joint_config = cfg, joint_names = map fst cfg\<rparr>)"

text \<open>\<^verbatim>\<open>np.deg2rad\<close>.\<close>

definition deg2rad :: "real \<Rightarrow> real" where
  "deg2rad x = x * pi / 180"

text \<open>
  One round of the loop of \<^verbatim>\<open>get_joint_values_from_row\<close>: the value appended for one
  joint name. Only \<^verbatim>\<open>ValueError\<close> and \<^verbatim>\<open>TypeError\<close> are caught.
\<close>

definition joint_value :: "publisher \<Rightarrow> row \<Rightarrow> string \<Rightarrow> error + real" where
  "joint_value p r joint_name =
     (case map_of (joint_config p) joint_name of
        None \<Rightarrow> Inl KeyError
      | Some config \<Rightarrow>
          (case r (csv_column config) of
             Some cell \<Rightarrow>
               (case cell of
                  Inr v \<Rightarrow> Inr (if is_degree config then deg2rad v else v)
                | Inl e \<Rightarrow> if e = ValueError \<or> e = TypeError then Inr 0.0 else Inl e)
           | None \<Rightarrow> Inr 0.0))"

fun joint_values_loop :: "publisher \<Rightarrow> row \<Rightarrow> string list \<Rightarrow> error + real list" where
  "joint_values_loop p r [] = Inr []"
| "joint_values_loop p r (joint_name # rest) =
     (case joint_value p r joint_name of
        Inl e \<Rightarrow> Inl e
      | Inr v \<Rightarrow>
          (case joint_values_loop p r rest of Inl e \<Rightarrow> Inl e | Inr vs \<Rightarrow> Inr (v # vs)))"

definition get_joint_values_from_row :: "publisher \<Rightarrow> row \<Rightarrow> error + real list" where
  "get_joint_values_from_row p r = joint_values_loop p r (joint_names p)"

subsection \<open>Reading the generated table\<close>


text \<open>The \<open>joint_1\<close> column, when there is one, has at most \<open>n\<close> rows.\<close>

definition short_column :: "trajectory \<Rightarrow> nat \<Rightarrow> bool" where
  "short_column d n = (case d ''joint_1'' of None \<Rightarrow> True | Some a \<Rightarrow> length a \<le> n)"

text \<open>
  A three-frame animation with a keyframe at every frame, used as a concrete input:
  \<^verbatim>\<open>OrganicKeyframeAnimator(3)\<close> after
  \<^verbatim>\<open>add_keyframe(0, {'joint_1': 0, 'Slider 22': -0.01})\<close>,
  \<^verbatim>\<open>add_keyframe(1, {'joint_1': 30, 'Slider 22': -0.003})\<close> and
  \<^verbatim>\<open>add_keyframe(2, {'joint_1': 0})\<close>.
\<close>

abbreviation demo_animator :: animator where
  "demo_animator \<equiv>
     add_keyframe (add_keyframe (add_keyframe (init 3 1)
       0 [''joint_1'' \<mapsto> 0, ''Slider 22'' \<mapsto> - 0.01])
       1 [''joint_1'' \<mapsto> 30, ''Slider 22'' \<mapsto> - 0.003])
       2 [''joint_1'' \<mapsto> 0]"

subsection \<open>The window size as the specification words it\<close>



section \<open>Properties\<close>

subsection \<open>Basic facts\<close>

lemma upto_unfold: "[i..j] = (if i \<le> j then i # [i + 1..j] else [])"
  by (simp add: upto.simps)

lemma keys_update: "fst ` set (AList.update k v al) = insert k (fst ` set al)"
  using dom_update[of k v al] by (simp add: dom_map_of_conv_image_fst)

lemma map_of_eq_None_keys: "map_of al k = None \<longleftrightarrow> k \<notin> fst ` set al"
  by (simp add: map_of_eq_None_iff)







subsection \<open>Interpolation within a segment\<close>


subsection \<open>Oscillation gating\<close>



subsection \<open>Normalization of the keyframe store\<close>

lemma add_start_keyframe_keys:
  "fst ` set (add_start_keyframe kfs) = insert 0 (fst ` set kfs)"
  by (auto simp: add_start_keyframe_def keys_update)

lemma normalize_total:
  "normalize n kfs =
     Inr (if int n - 1 \<notin> fst ` set (add_start_keyframe kfs)
          then AList.update (int n - 1) (the (map_of (add_start_keyframe kfs) 0))
                 (add_start_keyframe kfs)
          else add_start_keyframe kfs)"
proof -
  have "0 \<in> fst ` set (add_start_keyframe kfs)"
    by (simp add: add_start_keyframe_keys)
  then obtain k0 where "map_of (add_start_keyframe kfs) 0 = Some k0"
    by (metis map_of_eq_None_keys not_Some_eq)
  then show ?thesis
    by (simp add: normalize_def add_end_keyframe_def)
qed

lemma home_keyframe_values:
  "home_keyframe joint =
     (if joint = ''Slider 23'' then Some 0.022
      else if joint = ''Slider 22'' then Some (- 0.022)
      else if joint \<in> set rotational_joints then Some 0 else None)"
  by (simp add: home_keyframe_def rotational_joints_def)

subsection \<open>Values of a joint missing from a keyframe\<close>

text \<open>
  Claim C5, as the code has it. A joint missing from the end keyframe takes its start
  value as end value, so its base value is the start value at every frame of the
  segment, and the cell holds that value plus the gated oscillation. A joint missing
  from the start keyframe starts at \<open>0\<close>, whichever joint it is.
\<close>

theorem missing_joint_value_resolution:
  assumes "map_of (keyframes st) start_frame = Some start_kf"
    and "map_of (keyframes st) end_frame = Some end_kf"
  shows "start_end_values (keyframes st) start_frame end_frame joint =
           Inr (case start_kf joint of None \<Rightarrow> 0 | Some v \<Rightarrow> v,
                case end_kf joint of
                  None \<Rightarrow> (case start_kf joint of None \<Rightarrow> 0 | Some v \<Rightarrow> v)
                | Some w \<Rightarrow> w)
     \<and> (end_kf joint = None \<longrightarrow>
          (\<exists>sv. start_end_values (keyframes st) start_frame end_frame joint = Inr (sv, sv)
             \<and> (\<forall>ease_t. base_value sv sv ease_t = sv)
             \<and> (\<forall>sorted_frames frame ease_t.
                  cell_value st sorted_frames start_frame end_frame frame ease_t joint =
                    (case oscillation_term st sorted_frames start_frame end_frame frame joint sv sv of
                       Inl e \<Rightarrow> Inl e
                     | Inr oscillation \<Rightarrow> Inr (sv + oscillation)))))
     \<and> (start_kf joint = None \<longrightarrow>
          (\<exists>ev. start_end_values (keyframes st) start_frame end_frame joint = Inr (0, ev)))"
  using assms
  by (auto simp: start_end_values_def dict_get_def base_value_def cell_value_def Let_def
      split: option.splits sum.splits)

theorem missing_joint_value_resolution_witness:
  "map_of (keyframes (add_keyframe (add_keyframe (init 10 1) 0 [''joint_1'' \<mapsto> 5]) 9 Map.empty)) 0
     = Some [''joint_1'' \<mapsto> 5]
   \<and> map_of (keyframes (add_keyframe (add_keyframe (init 10 1) 0 [''joint_1'' \<mapsto> 5]) 9 Map.empty)) 9
     = Some Map.empty
   \<and> start_end_values
       (keyframes (add_keyframe (add_keyframe (init 10 1) 0 [''joint_1'' \<mapsto> 5]) 9 Map.empty))
       0 9 ''joint_1'' = Inr (5, 5)
   \<and> start_end_values
       (keyframes (add_keyframe (add_keyframe (init 10 1) 0 [''joint_1'' \<mapsto> 5]) 9 Map.empty))
       0 9 ''Slider 22'' = Inr (0, 0)"
  using
    missing_joint_value_resolution[of
      "add_keyframe (add_keyframe (init 10 1) 0 [''joint_1'' \<mapsto> 5]) 9 Map.empty"
      0 "[''joint_1'' \<mapsto> 5]" 9 Map.empty "''joint_1''"]
    missing_joint_value_resolution[of
      "add_keyframe (add_keyframe (init 10 1) 0 [''joint_1'' \<mapsto> 5]) 9 Map.empty"
      0 "[''joint_1'' \<mapsto> 5]" 9 Map.empty "''Slider 22''"]
  by (simp add: add_keyframe_def init_def)

text \<open>
  Claim C5 as stated gives a slider missing from the start keyframe its initial value.
  In a two-frame animation whose keyframes at 0 and 1 assign \<open>joint_1\<close> only,
  \<open>Slider 22\<close> starts at \<open>0\<close>, not at \<open>-0.022\<close>, and its generated column is \<open>0, 0\<close>.
\<close>

theorem slider_default_counterexample:
  "start_end_values
     (keyframes (add_keyframe (add_keyframe (init 2 1) 0 [''joint_1'' \<mapsto> 5]) 1 [''joint_1'' \<mapsto> 7]))
     0 1 ''Slider 22'' = Inr (0, 0)
   \<and> (case generate_movement
              (add_keyframe (add_keyframe (init 2 1) 0 [''joint_1'' \<mapsto> 5]) 1 [''joint_1'' \<mapsto> 7]) of
         Inl e \<Rightarrow> None
       | Inr st' \<Rightarrow> data st' ''Slider 22'') = Some [0, 0]"
  by (simp add: generate_movement_def generate_keyframed_def generate_raw_def normalize_def
        add_start_keyframe_def add_end_keyframe_def sorted_frames_of_def add_keyframe_def
        init_def home_keyframe_def rotational_joints_def slider_joints_def all_joints_def
        segment_t_def py_truediv_def cell_value_def start_end_values_def dict_get_def
        oscillation_term_def precision_frames_def data_setitem_def np_setitem_def
        np_index_def base_value_def ease_def Let_def numeral_2_eq_2 upto_unfold
        apply_smoothing_def)

subsection \<open>The frame shared by two segments\<close>




subsection \<open>Setters\<close>

text \<open>
  Claim C7, as the code has it. No setter fails. The three factor setters store
  \<open>max 0 factor\<close>; \<open>set_joint_oscillation_factor\<close> on an unknown joint prints a warning
  and changes nothing. \<open>set_oscillation_amplitude\<close> and \<open>set_oscillation_frequency\<close>
  store the value as given, negative or not, and on an unknown joint change nothing and
  print nothing.
\<close>

theorem setter_policy:
  "global_osc_factor (fst (set_global_oscillation_factor st factor)) = max 0 factor
   \<and> 0 \<le> global_osc_factor (fst (set_global_oscillation_factor st factor))
   \<and> (osc_factors st joint_name \<noteq> None \<longrightarrow>
        osc_factors (fst (set_joint_oscillation_factor st joint_name factor)) =
          (osc_factors st)(joint_name \<mapsto> max 0 factor))
   \<and> (osc_factors st joint_name = None \<longrightarrow>
        set_joint_oscillation_factor st joint_name factor = (st, [JointNotFound joint_name]))
   \<and> (\<forall>joint. osc_factors (fst (set_all_joints_oscillation st factor)) joint =
        (if osc_factors st joint = None then None else Some (max 0 factor)))
   \<and> (\<forall>p. osc_params st joint_name = Some p \<longrightarrow>
        osc_params (fst (set_oscillation_amplitude st joint_name amplitude)) =
          (osc_params st)(joint_name \<mapsto> p\<lparr>base_amp := amplitude\<rparr>))
   \<and> (osc_params st joint_name = None \<longrightarrow>
        set_oscillation_amplitude st joint_name amplitude = (st, []))
   \<and> (\<forall>p. osc_params st joint_name = Some p \<longrightarrow>
        osc_params (fst (set_oscillation_frequency st joint_name frequency)) =
          (osc_params st)(joint_name \<mapsto> p\<lparr>freq := frequency\<rparr>))
   \<and> (osc_params st joint_name = None \<longrightarrow>
        set_oscillation_frequency st joint_name frequency = (st, []))"
  by (auto simp: set_global_oscillation_factor_def set_joint_oscillation_factor_def
      set_all_joints_oscillation_def set_oscillation_amplitude_def
      set_oscillation_frequency_def Let_def split: option.splits)

theorem setter_policy_witness:
  "osc_factors (init 400 1) ''joint_1'' \<noteq> None
   \<and> osc_factors (fst (set_joint_oscillation_factor (init 400 1) ''joint_1'' (- 2))) ''joint_1''
       = Some 0
   \<and> osc_params (init 400 1) ''joint_1'' = Some \<lparr>freq = 0.08, base_amp = 3, phase = 0\<rparr>
   \<and> osc_params (fst (set_oscillation_amplitude (init 400 1) ''joint_1'' 7)) ''joint_1''
       = Some \<lparr>freq = 0.08, base_amp = 7, phase = 0\<rparr>
   \<and> osc_params (fst (set_oscillation_frequency (init 400 1) ''joint_1'' (- 1))) ''joint_1''
       = Some \<lparr>freq = - 1, base_amp = 3, phase = 0\<rparr>
   \<and> osc_factors (init 400 1) ''joint_99'' = None
   \<and> osc_params (init 400 1) ''joint_99'' = None
   \<and> set_joint_oscillation_factor (init 400 1) ''joint_99'' 3
       = (init 400 1, [JointNotFound ''joint_99''])
   \<and> set_oscillation_amplitude (init 400 1) ''joint_99'' 3 = (init 400 1, [])
   \<and> set_oscillation_frequency (init 400 1) ''joint_99'' 3 = (init 400 1, [])"
  using
    setter_policy[of "init 400 1" "- 2" "''joint_1''" 7 "- 1"]
    setter_policy[of "init 400 1" 3 "''joint_99''" 3 3]
  by (simp add: init_def)

text \<open>
  Claim C7 as stated has every setter clamp and every setter report an unknown joint.
  Amplitude \<open>-5\<close> is stored for \<open>joint_1\<close> as it is, and an unknown joint draws no
  message from \<open>set_oscillation_amplitude\<close> or \<open>set_oscillation_frequency\<close>.
\<close>

theorem setter_clamping_counterexample:
  "osc_params (fst (set_oscillation_amplitude (init 400 1) ''joint_1'' (- 5))) ''joint_1'' =
     Some \<lparr>freq = 0.08, base_amp = - 5, phase = 0\<rparr>
   \<and> osc_params (init 400 1) ''joint_99'' = None
   \<and> snd (set_oscillation_amplitude (init 400 1) ''joint_99'' 1) = []
   \<and> snd (set_oscillation_frequency (init 400 1) ''joint_99'' 1) = []"
  by (simp add: set_oscillation_amplitude_def set_oscillation_frequency_def init_def)

subsection \<open>The publisher's conversion\<close>

lemma map_of_prefixed:
  "map_of (map (\<lambda>(name, config). (prefix @ name, config)) cfg) (prefix @ name) = map_of cfg name"
  by (induction cfg) auto

lemma map_of_tabulated: "k \<in> set ks \<Longrightarrow> map_of (map (\<lambda>k. (k, f k)) ks) k = Some (f k)"
  by (induction ks) auto

lemma map_of_default_joint_config:
  "name \<in> set all_joints \<Longrightarrow>
   map_of default_joint_config name = Some \<lparr>csv_column = name, is_degree = True\<rparr>"
  unfolding default_joint_config_def by (rule map_of_tabulated)

lemma joint_config_make_publisher:
  "name \<in> set all_joints \<Longrightarrow>
   map_of (joint_config (make_publisher prefix)) (prefix @ name) =
     Some \<lparr>csv_column = name, is_degree = True\<rparr>"
  using map_of_prefixed[of prefix default_joint_config name]
  by (cases "prefix = []") (simp_all add: make_publisher_def map_of_default_joint_config)

lemma joint_value_make_publisher:
  assumes "name \<in> set all_joints"
  shows "joint_value (make_publisher prefix) r (prefix @ name) =
     (case r name of
        None \<Rightarrow> Inr 0
      | Some (Inr v) \<Rightarrow> Inr (v * pi / 180)
      | Some (Inl e) \<Rightarrow> if e = ValueError \<or> e = TypeError then Inr 0 else Inl e)"
  by (simp add: joint_value_def joint_config_make_publisher[OF assms] deg2rad_def
      split: option.splits sum.splits)

lemma joint_names_make_publisher:
  "joint_names (make_publisher prefix) = map (\<lambda>name. prefix @ name) all_joints"
  by (simp add: make_publisher_def default_joint_config_def Let_def comp_def case_prod_unfold)

lemma joint_values_loop_ok:
  assumes "\<forall>c e. r c = Some (Inl e) \<longrightarrow> e = ValueError \<or> e = TypeError"
    and "set names \<subseteq> set all_joints"
  shows "joint_values_loop (make_publisher prefix) r (map (\<lambda>name. prefix @ name) names) =
     Inr (map (\<lambda>c. case r c of Some (Inr v) \<Rightarrow> v * pi / 180 | _ \<Rightarrow> 0) names)"
  using assms(2)
proof (induction names)
  case Nil
  then show ?case by simp
next
  case (Cons a names)
  then have a: "a \<in> set all_joints" and rest: "set names \<subseteq> set all_joints"
    by auto
  show ?case
    using assms(1) Cons.IH[OF rest]
    by (auto simp: joint_value_make_publisher[OF a] split: option.splits sum.splits)
qed

text \<open>
  Claim C9. Every one of the nine entries of the joint configuration is marked
  \<open>is_degree\<close>, with or without a joint prefix. So for a row whose cells either convert
  with \<^verbatim>\<open>float\<close> or raise \<^verbatim>\<open>ValueError\<close> or \<^verbatim>\<open>TypeError\<close>, the call returns, and each
  of the nine channels, the two sliders among them, is the cell times \<open>pi / 180\<close>, or
  \<open>0\<close> when the column is missing or the cell does not convert.
\<close>

theorem publisher_converts_all_as_degrees:
  assumes "\<forall>c e. r c = Some (Inl e) \<longrightarrow> e = ValueError \<or> e = TypeError"
  shows "get_joint_values_from_row (make_publisher prefix) r =
     Inr (map (\<lambda>c. case r c of Some (Inr v) \<Rightarrow> v * pi / 180 | _ \<Rightarrow> 0)
            [''joint_1'', ''joint_2'', ''joint_3'', ''joint_4'', ''joint_5'', ''joint_6'',
             ''joint_7'', ''Slider 22'', ''Slider 23''])
     \<and> (\<forall>entry \<in> set (joint_config (make_publisher prefix)). is_degree (snd entry))
     \<and> map (csv_column \<circ> snd) (joint_config (make_publisher prefix)) =
         [''joint_1'', ''joint_2'', ''joint_3'', ''joint_4'', ''joint_5'', ''joint_6'',
          ''joint_7'', ''Slider 22'', ''Slider 23'']"
proof -
  have "get_joint_values_from_row (make_publisher prefix) r =
     Inr (map (\<lambda>c. case r c of Some (Inr v) \<Rightarrow> v * pi / 180 | _ \<Rightarrow> 0) all_joints)"
    unfolding get_joint_values_from_row_def joint_names_make_publisher
    by (rule joint_values_loop_ok[OF assms]) simp
  moreover have "\<forall>entry \<in> set (joint_config (make_publisher prefix)). is_degree (snd entry)"
    by (auto simp: make_publisher_def default_joint_config_def Let_def)
  moreover have "map (csv_column \<circ> snd) (joint_config (make_publisher prefix)) = all_joints"
    by (simp add: make_publisher_def default_joint_config_def Let_def comp_def case_prod_unfold)
  ultimately show ?thesis
    by (simp add: all_joints_def rotational_joints_def slider_joints_def)
qed

theorem publisher_converts_all_as_degrees_witness:
  "get_joint_values_from_row (make_publisher [])
     [''joint_1'' \<mapsto> Inr 180, ''Slider 22'' \<mapsto> Inr (- 0.022), ''Slider 23'' \<mapsto> Inl ValueError] =
   Inr [pi, 0, 0, 0, 0, 0, 0, - 0.022 * pi / 180, 0]"
  using publisher_converts_all_as_degrees[of
     "[''joint_1'' \<mapsto> Inr 180, ''Slider 22'' \<mapsto> Inr (- 0.022), ''Slider 23'' \<mapsto> Inl ValueError]" "[]"]
  by (simp split: if_splits)

subsection \<open>The smoothing pass\<close>






lemma smoothing_loop_result:
  "distinct js \<Longrightarrow> smoothing_loop st js d = Inr d' \<Longrightarrow>
     (\<forall>j \<in> set js. \<exists>factor a. osc_factors st j = Some factor \<and> d j = Some a
         \<and> d' j = Some (moving_average a (window_size_of factor)))
     \<and> (\<forall>j. j \<notin> set js \<longrightarrow> d' j = d j)"
proof (induction js arbitrary: d)
  case Nil
  then show ?case by simp
next
  case (Cons j js)
  from Cons.prems(2) obtain factor a where
    f: "osc_factors st j = Some factor" and a: "d j = Some a"
    and rest: "smoothing_loop st js (d(j \<mapsto> moving_average a (window_size_of factor))) = Inr d'"
    by (auto split: option.splits)
  from Cons.prems(1) have dist: "distinct js" and notin: "j \<notin> set js"
    by auto
  note ih = Cons.IH[OF dist rest]
  show ?case
    using ih f a notin by (auto split: if_splits)
qed


lemma distinct_rotational_joints: "distinct rotational_joints"
  by (simp add: rotational_joints_def)

lemma apply_smoothing_result:
  assumes "apply_smoothing st = Inr st'"
  shows "(\<forall>j \<in> set rotational_joints. \<exists>factor a. osc_factors st j = Some factor
            \<and> data st j = Some a
            \<and> data st' j = Some (moving_average a (window_size_of factor)))
         \<and> (\<forall>j. j \<notin> set rotational_joints \<longrightarrow> data st' j = data st j)
         \<and> keyframes st' = keyframes st \<and> osc_factors st' = osc_factors st"
proof -
  from assms obtain d' where
    loop: "smoothing_loop st rotational_joints (data st) = Inr d'" and st': "st' = st\<lparr>data := d'\<rparr>"
    by (auto simp: apply_smoothing_def split: sum.splits)
  show ?thesis
    using smoothing_loop_result[OF distinct_rotational_joints loop] by (simp add: st')
qed




subsection \<open>Values at the keyframes\<close>














lemma two_distinct_length: "a \<in> set xs \<Longrightarrow> b \<in> set xs \<Longrightarrow> a \<noteq> b \<Longrightarrow> 2 \<le> length xs"
  by (cases xs; cases "tl xs") auto

lemma normalize_keys:
  assumes "normalize n kfs = Inr kfs'"
  shows "fst ` set kfs' = fst ` set kfs \<union> {0, int n - 1}"
proof -
  define S where "S = fst ` set kfs"
  from assms have "kfs' =
      (if int n - 1 \<notin> fst ` set (add_start_keyframe kfs)
       then AList.update (int n - 1) (the (map_of (add_start_keyframe kfs) 0))
              (add_start_keyframe kfs)
       else add_start_keyframe kfs)"
    by (simp add: normalize_total)
  then have "fst ` set kfs' =
      (if int n - 1 \<notin> insert 0 S then insert (int n - 1) (insert 0 S) else insert 0 S)"
    by (simp add: keys_update add_start_keyframe_keys S_def)
  then have "fst ` set kfs' = S \<union> {0, int n - 1}"
    by (simp split: if_splits) blast+
  then show ?thesis
    by (simp add: S_def)
qed




lemma generate_keyframed_split:
  assumes "generate_keyframed st = Inr st'"
  shows "\<exists>st_raw. generate_raw st = Inr st_raw \<and> apply_smoothing st_raw = Inr st'"
  using assms by (auto simp: generate_keyframed_def split: sum.splits)

lemma generate_raw_fields:
  assumes "generate_raw st = Inr st_raw"
  shows "normalize (total_frames st) (keyframes st) = Inr (keyframes st_raw)
         \<and> osc_factors st_raw = osc_factors st \<and> total_frames st_raw = total_frames st"
  using assms by (auto simp: generate_raw_def Let_def split: sum.splits)

lemma demo_generation:
  "\<exists>st'. generate_movement
       demo_animator = Inr st'
     \<and> data st' ''joint_1'' = Some [10, 10, 10]
     \<and> data st' ''Slider 22'' = Some [- 0.01, - 0.003, - 0.003]"
  by (simp add: generate_movement_def generate_keyframed_def generate_raw_def normalize_def
        add_start_keyframe_def add_end_keyframe_def sorted_frames_of_def add_keyframe_def
        init_def home_keyframe_def rotational_joints_def slider_joints_def all_joints_def
        segment_t_def py_truediv_def cell_value_def start_end_values_def dict_get_def
        oscillation_term_def precision_frames_def data_setitem_def np_setitem_def
        np_index_def base_value_def ease_def Let_def numeral_3_eq_3 upto_unfold
        apply_smoothing_def window_size_of_def py_int_def moving_average_def
        window_bounds_def slice_def np_mean_def)






subsection \<open>Adding a keyframe\<close>

lemma data_setitem_short:
  "data_setitem d joint frame v = Inr d' \<Longrightarrow> short_column d n \<Longrightarrow> short_column d' n"
  by (auto simp: data_setitem_def np_setitem_def short_column_def
      split: option.splits sum.splits if_splits)

lemma joint_loop_short:
  "joint_loop st sfs s e frame et js d = Inr d' \<Longrightarrow> short_column d n \<Longrightarrow> short_column d' n"
proof (induction js arbitrary: d)
  case Nil
  then show ?case by simp
next
  case (Cons joint js)
  from Cons.prems(1) obtain v d1 where
    w: "data_setitem d joint frame v = Inr d1"
    and rest: "joint_loop st sfs s e frame et js d1 = Inr d'"
    by (auto split: sum.splits)
  from Cons.IH[OF rest data_setitem_short[OF w Cons.prems(2)]] show ?case .
qed

lemma joint_loop_out_of_range:
  assumes "joint_loop st sfs s e frame et all_joints d = Inr d'" "short_column d n" "int n \<le> frame"
  shows False
proof -
  from assms(1) obtain v d1 where "data_setitem d ''joint_1'' frame v = Inr d1"
    by (auto simp: all_joints_def rotational_joints_def split: sum.splits)
  with assms(2,3) show False
    by (auto simp: data_setitem_def np_setitem_def np_index_def short_column_def
        split: option.splits sum.splits if_splits)
qed

lemma frame_loop_short:
  "frame_loop st sfs s e fs d = Inr d' \<Longrightarrow> short_column d n \<Longrightarrow> short_column d' n"
proof (induction fs arbitrary: d)
  case Nil
  then show ?case by simp
next
  case (Cons frame fs)
  from Cons.prems(1) obtain t d1 where
    jl: "joint_loop st sfs s e frame (ease t) all_joints d = Inr d1"
    and rest: "frame_loop st sfs s e fs d1 = Inr d'"
    by (auto split: sum.splits)
  from Cons.IH[OF rest joint_loop_short[OF jl Cons.prems(2)]] show ?case .
qed

lemma frame_loop_out_of_range:
  "frame_loop st sfs s e fs d = Inr d' \<Longrightarrow> short_column d n \<Longrightarrow> k \<in> set fs \<Longrightarrow> int n \<le> k \<Longrightarrow> False"
proof (induction fs arbitrary: d)
  case Nil
  then show ?case by simp
next
  case (Cons frame fs)
  from Cons.prems(1) obtain t d1 where
    jl: "joint_loop st sfs s e frame (ease t) all_joints d = Inr d1"
    and rest: "frame_loop st sfs s e fs d1 = Inr d'"
    by (auto split: sum.splits)
  show ?case
  proof (cases "k = frame")
    case True
    with joint_loop_out_of_range[OF jl Cons.prems(2)] Cons.prems(4) show False by simp
  next
    case False
    with Cons.prems(3) have "k \<in> set fs" by simp
    from Cons.IH[OF rest joint_loop_short[OF jl Cons.prems(2)] this Cons.prems(4)] show False .
  qed
qed

lemma segment_loop_out_of_range:
  "segment_loop st sfs fr d = Inr d' \<Longrightarrow> sorted fr \<Longrightarrow> 2 \<le> length fr \<Longrightarrow> short_column d n \<Longrightarrow>
   k \<in> set fr \<Longrightarrow> int n \<le> k \<Longrightarrow> False"
proof (induction st sfs fr d rule: segment_loop.induct)
  case (1 st sfs a b rest d)
  from "1.prems"(1) obtain d1 where
    fl: "frame_loop st sfs a b [a..b] d = Inr d1"
    and rest: "segment_loop st sfs (b # rest) d1 = Inr d'"
    by (auto split: sum.splits)
  from "1.prems"(2) have ab: "a \<le> b" and sorted_rest: "sorted (b # rest)"
    by auto
  show ?case
  proof (cases "k \<in> set [a..b]")
    case True
    from frame_loop_out_of_range[OF fl "1.prems"(4) True "1.prems"(6)] show False .
  next
    case False
    with "1.prems"(5) ab have later: "k \<in> set (b # rest)" and "rest \<noteq> []"
      by auto
    then have "2 \<le> length (b # rest)"
      by (cases rest) auto
    from "1.IH"[OF fl rest sorted_rest this frame_loop_short[OF fl "1.prems"(4)] later "1.prems"(6)]
    show False .
  qed
qed simp_all

lemma generate_raw_out_of_range:
  assumes "generate_raw st = Inr st1" "short_column (data st) (total_frames st)"
    and "k \<in> fst ` set (keyframes st)" "int (total_frames st) \<le> k"
  shows False
proof -
  from assms(1) obtain kfs d' where
    norm: "normalize (total_frames st) (keyframes st) = Inr kfs"
    and loop: "segment_loop (st\<lparr>keyframes := kfs\<rparr>) (sorted_frames_of kfs) (sorted_frames_of kfs)
                 (data st) = Inr d'"
    by (auto simp: generate_raw_def Let_def split: sum.splits)
  have keys: "set (sorted_frames_of kfs) = fst ` set kfs"
    by (simp add: sorted_frames_of_def)
  note nk = normalize_keys[OF norm]
  from nk assms(3) have k: "k \<in> set (sorted_frames_of kfs)"
    unfolding keys by blast
  from nk have "0 \<in> set (sorted_frames_of kfs)" "int (total_frames st) - 1 \<in> set (sorted_frames_of kfs)"
    unfolding keys by blast+
  with k assms(4) have len: "2 \<le> length (sorted_frames_of kfs)"
    by (intro two_distinct_length[of k _ "int (total_frames st) - 1"]) auto
  have "sorted (sorted_frames_of kfs)"
    by (simp add: sorted_frames_of_def)
  from segment_loop_out_of_range[OF loop this len assms(2) k assms(4)] show False .
qed

lemma generate_movement_out_of_range:
  assumes "short_column (data st) (total_frames st)"
    and "k \<in> fst ` set (keyframes st)" "int (total_frames st) \<le> k"
  shows "\<exists>e. generate_movement st = Inl e"
proof (cases "generate_movement st")
  case (Inl e)
  then show ?thesis by blast
next
  case (Inr st')
  from assms(2) have "keyframes st \<noteq> []" by auto
  moreover have "length (sorted_frames_of (keyframes st)) = length (keyframes st)"
    by (simp add: sorted_frames_of_def)
  ultimately have "sorted_frames_of (keyframes st) \<noteq> []"
    by (metis length_0_conv)
  with Inr have "generate_keyframed st = Inr st'"
    by (simp add: generate_movement_def)
  from generate_keyframed_split[OF this] obtain st_raw where "generate_raw st = Inr st_raw"
    by blast
  from generate_raw_out_of_range[OF this assms] show ?thesis ..
qed

text \<open>
  Claim C10. \<open>add_keyframe\<close> tests nothing: for every integer frame it stores the given
  mapping at that frame, replacing a keyframe already there, and changes no other
  keyframe and no other field. A frame outside \<open>[0, total_frames - 1]\<close> is accepted
  like any other and shows only when the movement is generated: with a frame at or
  beyond \<open>total_frames\<close> (and columns of \<open>total_frames\<close> rows) generation fails, as at
  frame \<open>5\<close> of a two-frame animation, where it stops with an \<open>IndexError\<close>; frame
  \<open>-1\<close> of that animation is written to the last row and generation succeeds.
\<close>

theorem add_keyframe_unvalidated:
  "map_of (keyframes (add_keyframe st frame joints)) frame = Some joints
   \<and> (\<forall>f. f \<noteq> frame \<longrightarrow>
        map_of (keyframes (add_keyframe st frame joints)) f = map_of (keyframes st) f)
   \<and> fst ` set (keyframes (add_keyframe st frame joints)) = insert frame (fst ` set (keyframes st))
   \<and> add_keyframe st frame joints = st\<lparr>keyframes := keyframes (add_keyframe st frame joints)\<rparr>
   \<and> ((\<forall>a. data st ''joint_1'' = Some a \<longrightarrow> length a \<le> total_frames st)
        \<and> int (total_frames st) \<le> frame \<longrightarrow>
        (\<exists>e. generate_movement (add_keyframe st frame joints) = Inl e))
   \<and> generate_movement (add_keyframe (init 2 1) 5 Map.empty) = Inl IndexError
   \<and> (\<exists>st'. generate_movement (add_keyframe (init 2 1) (- 1) Map.empty) = Inr st')"
proof -
  have stored: "map_of (keyframes (add_keyframe st frame joints)) frame = Some joints
   \<and> (\<forall>f. f \<noteq> frame \<longrightarrow>
        map_of (keyframes (add_keyframe st frame joints)) f = map_of (keyframes st) f)
   \<and> fst ` set (keyframes (add_keyframe st frame joints)) = insert frame (fst ` set (keyframes st))
   \<and> add_keyframe st frame joints = st\<lparr>keyframes := keyframes (add_keyframe st frame joints)\<rparr>"
    by (simp add: add_keyframe_def update_conv' keys_update)
  have later: "(\<forall>a. data st ''joint_1'' = Some a \<longrightarrow> length a \<le> total_frames st)
        \<and> int (total_frames st) \<le> frame \<longrightarrow>
        (\<exists>e. generate_movement (add_keyframe st frame joints) = Inl e)"
  proof
    assume h: "(\<forall>a. data st ''joint_1'' = Some a \<longrightarrow> length a \<le> total_frames st)
        \<and> int (total_frames st) \<le> frame"
    then have "short_column (data (add_keyframe st frame joints))
        (total_frames (add_keyframe st frame joints))"
      by (simp add: short_column_def add_keyframe_def split: option.splits)
    moreover have "frame \<in> fst ` set (keyframes (add_keyframe st frame joints))"
      by (simp add: add_keyframe_def keys_update)
    moreover from h have "int (total_frames (add_keyframe st frame joints)) \<le> frame"
      by (simp add: add_keyframe_def)
    ultimately show "\<exists>e. generate_movement (add_keyframe st frame joints) = Inl e"
      by (rule generate_movement_out_of_range)
  qed
  have beyond: "generate_movement (add_keyframe (init 2 1) 5 Map.empty) = Inl IndexError"
    by (simp add: generate_movement_def generate_keyframed_def generate_raw_def normalize_def
        add_start_keyframe_def add_end_keyframe_def sorted_frames_of_def add_keyframe_def
        init_def home_keyframe_def rotational_joints_def slider_joints_def all_joints_def
        segment_t_def py_truediv_def cell_value_def start_end_values_def dict_get_def
        oscillation_term_def precision_frames_def data_setitem_def np_setitem_def
        np_index_def base_value_def ease_def Let_def numeral_2_eq_2 upto_unfold)
  have wraps: "\<exists>st'. generate_movement (add_keyframe (init 2 1) (- 1) Map.empty) = Inr st'"
    by (simp add: generate_movement_def generate_keyframed_def generate_raw_def normalize_def
        add_start_keyframe_def add_end_keyframe_def sorted_frames_of_def add_keyframe_def
        init_def home_keyframe_def rotational_joints_def slider_joints_def all_joints_def
        segment_t_def py_truediv_def cell_value_def start_end_values_def dict_get_def
        oscillation_term_def precision_frames_def data_setitem_def np_setitem_def
        np_index_def base_value_def ease_def Let_def numeral_2_eq_2 upto_unfold
        apply_smoothing_def)
  from stored later beyond wraps show ?thesis
    by (intro conjI) simp_all
qed

theorem add_keyframe_unvalidated_witness:
  "(400 :: int) \<noteq> 500
   \<and> total_frames (init 400 1) = 400
   \<and> data (init 400 1) ''joint_1'' = Some (replicate 400 0)
   \<and> map_of (keyframes (add_keyframe (add_keyframe (init 400 1) 400 [''joint_1'' \<mapsto> 1]) 500
        [''joint_1'' \<mapsto> 2])) 500 = Some [''joint_1'' \<mapsto> 2]
   \<and> map_of (keyframes (add_keyframe (add_keyframe (init 400 1) 400 [''joint_1'' \<mapsto> 1]) 500
        [''joint_1'' \<mapsto> 2])) 400 = Some [''joint_1'' \<mapsto> 1]
   \<and> (\<exists>e. generate_movement (add_keyframe (init 400 1) 400 [''joint_1'' \<mapsto> 1]) = Inl e)"
  using add_keyframe_unvalidated[of "add_keyframe (init 400 1) 400 [''joint_1'' \<mapsto> 1]" 500
      "[''joint_1'' \<mapsto> 2]"]
    add_keyframe_unvalidated[of "init 400 1" 400 "[''joint_1'' \<mapsto> 1]"]
  by (simp add: init_def)

subsection \<open>The boundary keyframes\<close>

text \<open>
  Claim C4. Adding the boundary keyframes never fails. Afterwards frame \<open>0\<close> and frame
  \<open>total_frames - 1\<close> are keyframes: a missing frame \<open>0\<close> is the home pose (\<open>0\<close> for the
  rotational joints, \<open>-0.022\<close> and \<open>0.022\<close> for the sliders), a missing last frame is a
  copy of frame \<open>0\<close> as it then stands, and the keyframes that were there keep their
  values. Doing it again changes nothing, and a store that has both boundary frames is
  left as it is. A generation from a store with a keyframe that succeeds leaves the
  store so completed in the animator.
\<close>

theorem boundary_normalization:
  "\<exists>kfs'. normalize n kfs = Inr kfs'
     \<and> 0 \<in> fst ` set kfs' \<and> int n - 1 \<in> fst ` set kfs'
     \<and> (0 \<notin> fst ` set kfs \<longrightarrow> map_of kfs' 0 = Some home_keyframe)
     \<and> (int n - 1 \<notin> fst ` set kfs \<longrightarrow> map_of kfs' (int n - 1) = map_of kfs' 0)
     \<and> (\<forall>f \<in> fst ` set kfs. map_of kfs' f = map_of kfs f)
     \<and> fst ` set kfs' = fst ` set kfs \<union> {0, int n - 1}
     \<and> normalize n kfs' = Inr kfs'
     \<and> (0 \<in> fst ` set kfs \<and> int n - 1 \<in> fst ` set kfs \<longrightarrow> kfs' = kfs)
     \<and> home_keyframe = map_of
          [(''joint_1'', 0), (''joint_2'', 0), (''joint_3'', 0), (''joint_4'', 0),
           (''joint_5'', 0), (''joint_6'', 0), (''joint_7'', 0),
           (''Slider 22'', - 0.022), (''Slider 23'', 0.022)]
     \<and> (keyframes st \<noteq> [] \<and> generate_movement st = Inr st' \<longrightarrow>
          normalize (total_frames st) (keyframes st) = Inr (keyframes st'))"
proof -
  have gen: "keyframes st \<noteq> [] \<and> generate_movement st = Inr st' \<longrightarrow>
          normalize (total_frames st) (keyframes st) = Inr (keyframes st')"
  proof
    assume h: "keyframes st \<noteq> [] \<and> generate_movement st = Inr st'"
    have "length (sorted_frames_of (keyframes st)) = length (keyframes st)"
      by (simp add: sorted_frames_of_def)
    with h have "sorted_frames_of (keyframes st) \<noteq> []"
      by (metis length_0_conv)
    with h have "generate_keyframed st = Inr st'"
      by (simp add: generate_movement_def)
    from generate_keyframed_split[OF this] obtain st_raw where
      raw: "generate_raw st = Inr st_raw" and smooth: "apply_smoothing st_raw = Inr st'"
      by blast
    from generate_raw_fields[OF raw] apply_smoothing_result[OF smooth]
    show "normalize (total_frames st) (keyframes st) = Inr (keyframes st')"
      by simp
  qed
  define k1 where "k1 = add_start_keyframe kfs"
  define kfs' where
    "kfs' = (if int n - 1 \<notin> fst ` set k1
             then AList.update (int n - 1) (the (map_of k1 0)) k1 else k1)"
  have norm: "normalize n kfs = Inr kfs'"
    by (simp add: normalize_total k1_def kfs'_def)
  have keys1: "fst ` set k1 = insert 0 (fst ` set kfs)"
    by (simp add: k1_def add_start_keyframe_keys)
  have keys': "fst ` set kfs' = fst ` set kfs \<union> {0, int n - 1}"
    by (auto simp: kfs'_def keys1 keys_update)
  have m1: "map_of k1 =
      (if 0 \<notin> fst ` set kfs then (map_of kfs)(0 \<mapsto> home_keyframe) else map_of kfs)"
    by (simp add: k1_def add_start_keyframe_def update_conv')
  have m': "map_of kfs' =
      (if int n - 1 \<notin> fst ` set k1 then (map_of k1)(int n - 1 \<mapsto> the (map_of k1 0))
       else map_of k1)"
    by (simp add: kfs'_def update_conv')
  have zero1: "map_of k1 0 \<noteq> None"
    by (simp add: map_of_eq_None_keys keys1)
  have a: "0 \<notin> fst ` set kfs \<longrightarrow> map_of kfs' 0 = Some home_keyframe"
    by (auto simp: m' m1)
  have b: "int n - 1 \<notin> fst ` set kfs \<longrightarrow> map_of kfs' (int n - 1) = map_of kfs' 0"
    using zero1 by (auto simp: m' keys1)
  have c: "\<forall>f \<in> fst ` set kfs. map_of kfs' f = map_of kfs f"
  proof
    fix f assume f: "f \<in> fst ` set kfs"
    then have "f \<noteq> int n - 1 \<or> int n - 1 \<in> fst ` set k1" "f \<noteq> 0 \<or> 0 \<in> fst ` set kfs"
      unfolding keys1 by blast+
    then show "map_of kfs' f = map_of kfs f"
      by (auto simp: m' m1)
  qed
  have start_id: "add_start_keyframe kfs' = kfs'"
    by (simp add: add_start_keyframe_def keys')
  have d: "normalize n kfs' = Inr kfs'"
    by (simp add: normalize_total start_id keys')
  have e: "0 \<in> fst ` set kfs \<and> int n - 1 \<in> fst ` set kfs \<longrightarrow> kfs' = kfs"
    by (auto simp: kfs'_def k1_def add_start_keyframe_def)
  have h: "home_keyframe = map_of
          [(''joint_1'', 0), (''joint_2'', 0), (''joint_3'', 0), (''joint_4'', 0),
           (''joint_5'', 0), (''joint_6'', 0), (''joint_7'', 0),
           (''Slider 22'', - 0.022), (''Slider 23'', 0.022)]"
    by (rule ext) (simp add: home_keyframe_values rotational_joints_def)
  from norm keys' a b c d e h gen show ?thesis
    by (intro exI[of _ kfs']) simp
qed

theorem boundary_normalization_witness:
  "0 \<notin> fst ` set [(50 :: int, [''joint_1'' \<mapsto> 10 :: real])]
   \<and> int 100 - 1 \<notin> fst ` set [(50 :: int, [''joint_1'' \<mapsto> 10 :: real])]
   \<and> (\<exists>kfs'. normalize 100 [(50, [''joint_1'' \<mapsto> 10])] = Inr kfs'
        \<and> map_of kfs' 0 = Some home_keyframe
        \<and> map_of kfs' 99 = Some home_keyframe
        \<and> map_of kfs' 50 = Some [''joint_1'' \<mapsto> 10]
        \<and> normalize 100 kfs' = Inr kfs')
   \<and> 0 \<in> fst ` set (keyframes demo_animator)
   \<and> int 3 - 1 \<in> fst ` set (keyframes demo_animator)
   \<and> normalize 3 (keyframes demo_animator) = Inr (keyframes demo_animator)
   \<and> keyframes demo_animator \<noteq> []
   \<and> (\<exists>st'. generate_movement demo_animator = Inr st'
        \<and> normalize 3 (keyframes demo_animator) = Inr (keyframes st'))"
proof -
  have ne: "keyframes demo_animator \<noteq> []" and n: "total_frames demo_animator = 3"
    and both: "0 \<in> fst ` set (keyframes demo_animator)"
      "int 3 - 1 \<in> fst ` set (keyframes demo_animator)"
    by (simp_all add: add_keyframe_def init_def)
  from demo_generation obtain st' where ok: "generate_movement demo_animator = Inr st'"
    by blast
  from boundary_normalization[of 3 "keyframes demo_animator" demo_animator st'] ne ok n both
  have same: "normalize 3 (keyframes demo_animator) = Inr (keyframes demo_animator)"
    and "normalize 3 (keyframes demo_animator) = Inr (keyframes st')"
    by auto
  with ok have gen: "\<exists>st'. generate_movement demo_animator = Inr st'
        \<and> normalize 3 (keyframes demo_animator) = Inr (keyframes st')"
    by blast
  have "0 \<notin> fst ` set [(50 :: int, [''joint_1'' \<mapsto> 10 :: real])]
   \<and> int 100 - 1 \<notin> fst ` set [(50 :: int, [''joint_1'' \<mapsto> 10 :: real])]
   \<and> (\<exists>kfs'. normalize 100 [(50, [''joint_1'' \<mapsto> 10])] = Inr kfs'
        \<and> map_of kfs' 0 = Some home_keyframe
        \<and> map_of kfs' 99 = Some home_keyframe
        \<and> map_of kfs' 50 = Some [''joint_1'' \<mapsto> 10]
        \<and> normalize 100 kfs' = Inr kfs')"
    using boundary_normalization[of 100 "[(50, [''joint_1'' \<mapsto> 10])]" demo_animator st']
    by auto
  with ne gen both same show ?thesis
    by blast
qed

end
